theory Spec2Isabelle
  imports Main "HOL-Library.AList"
begin

section \<open>The TTL cache (cache.py)\<close>

text \<open>
  Time. \<open>datetime.now()\<close> is a wall-clock reading with microsecond resolution; a
  reading is modelled as an \<open>int\<close>, the number of microseconds since
  1970-01-01 00:00:00, and is an explicit argument of every operation that reads the
  clock. The type \<open>datetime\<close> holds the readings from \<open>datetime.min\<close>
  (0001-01-01 00:00:00) to \<open>datetime.max\<close> (9999-12-31 23:59:59.999999).
\<close>

definition datetime_min :: int where
  "datetime_min = - 62135596800000000"

definition datetime_max :: int where
  "datetime_max = 253402300799999999"

text \<open>
  The one exception the cache can raise: line 79 of cache.py,
  \<open>datetime.now() + timedelta(seconds=ttl_seconds)\<close>, raises \<open>OverflowError\<close> when the
  duration or the sum leaves the range of its type.
  \<^item> \<open>timedelta_seconds s\<close> is \<open>timedelta(seconds=s)\<close> for a whole number of seconds: the
    duration in microseconds; the constructor refuses a duration whose day count
    \<open>s // 86400\<close> exceeds 999999999 in magnitude.
  \<^item> \<open>datetime_add t delta\<close> is \<open>t + delta\<close> for a reading and a duration; the sum must
    again be a \<open>datetime\<close>.
\<close>

datatype cache_exception = OverflowError

definition timedelta_seconds :: "int \<Rightarrow> cache_exception + int" where
  "timedelta_seconds s =
     (if - 999999999 \<le> s div 86400 \<and> s div 86400 \<le> 999999999
      then Inr (1000000 * s) else Inl OverflowError)"

definition datetime_add :: "int \<Rightarrow> int \<Rightarrow> cache_exception + int" where
  "datetime_add t delta =
     (if datetime_min \<le> t + delta \<and> t + delta \<le> datetime_max
      then Inr (t + delta) else Inl OverflowError)"

text \<open>The dataclass \<open>CacheEntry\<close>: the payload (\<open>Any\<close>) and the expiration time.\<close>

record 'a CacheEntry =
  data :: 'a
  expires_at :: int

text \<open>
  \<open>CacheManager\<close>: \<open>default_ttl\<close> and the dictionary \<open>_cache\<close>. A Python dictionary
  keeps its keys unique and in insertion order; it is an association list here, with
  \<open>map_of\<close> for the lookup, \<open>AList.update\<close> for \<open>d[k] = v\<close> (overwrite in place, or
  append), \<open>AList.delete\<close> for \<open>del d[k]\<close> and \<open>length\<close> for \<open>len(d)\<close>.
\<close>

record 'a CacheManager =
  default_ttl :: int
  cache :: "(string \<times> 'a CacheEntry) list"

text \<open>\<open>CacheManager.__init__\<close>\<close>

definition init :: "int \<Rightarrow> 'a CacheManager" where
  "init ttl = \<lparr>default_ttl = ttl, cache = []\<rparr>"

text \<open>
  \<open>CacheManager.get\<close>: the result (\<open>None\<close> for a miss) and the manager afterwards.
  The clock is read only when the key is present; \<open>now\<close> is that reading.
\<close>

definition get :: "'a CacheManager \<Rightarrow> int \<Rightarrow> string \<Rightarrow> 'a option \<times> 'a CacheManager" where
  "get c now key =
     (case map_of (cache c) key of
        None \<Rightarrow> (None, c)
      | Some entry \<Rightarrow>
          if now \<ge> expires_at entry
          then (None, c\<lparr>cache := AList.delete key (cache c)\<rparr>)
          else (Some (data entry), c))"

text \<open>
  \<open>CacheManager._cleanup_expired\<close>: collect the expired keys, then delete them one by
  one. \<open>now\<close> is the clock reading taken inside the sweep.
\<close>

definition cleanup_expired :: "'a CacheManager \<Rightarrow> int \<Rightarrow> 'a CacheManager" where
  "cleanup_expired c now =
     (let expired_keys = [key. (key, entry) \<leftarrow> cache c, now \<ge> expires_at entry]
      in c\<lparr>cache := fold AList.delete expired_keys (cache c)\<rparr>)"

text \<open>
  \<open>CacheManager.set\<close>. \<open>now\<close> is the clock reading that fixes \<open>expires_at\<close>;
  \<open>now_sweep\<close> is the later reading taken by the sweep, used only when the sweep runs.
  The result is \<open>Inr\<close> the manager afterwards when the call returns, and \<open>Inl\<close> the
  exception when line 79 raises; the exception leaves the method before anything is
  stored, so the manager is then the one the call started with.
\<close>

definition set_cache ::
  "'a CacheManager \<Rightarrow> string \<Rightarrow> 'a \<Rightarrow> int option \<Rightarrow> int \<Rightarrow> int
     \<Rightarrow> cache_exception + 'a CacheManager" where
  "set_cache c key d ttl now now_sweep =
     (let ttl_seconds = (case ttl of Some t \<Rightarrow> t | None \<Rightarrow> default_ttl c)
      in case timedelta_seconds ttl_seconds of
           Inl e \<Rightarrow> Inl e
         | Inr delta \<Rightarrow>
             (case datetime_add now delta of
                Inl e \<Rightarrow> Inl e
              | Inr expires \<Rightarrow>
                  (let c1 = c\<lparr>cache := AList.update key \<lparr>data = d, expires_at = expires\<rparr> (cache c)\<rparr>
                   in Inr (if length (cache c1) mod 10 = 0
                           then cleanup_expired c1 now_sweep else c1))))"

text \<open>\<open>CacheManager.invalidate\<close> and \<open>CacheManager.clear\<close>\<close>

definition invalidate :: "'a CacheManager \<Rightarrow> string \<Rightarrow> 'a CacheManager" where
  "invalidate c key =
     (if map_of (cache c) key \<noteq> None then c\<lparr>cache := AList.delete key (cache c)\<rparr> else c)"

definition clear :: "'a CacheManager \<Rightarrow> 'a CacheManager" where
  "clear c = c\<lparr>cache := []\<rparr>"

text \<open>
  \<open>CacheManager.get_stats\<close>: the returned dictionary, and the manager afterwards.
\<close>

definition get_stats :: "'a CacheManager \<Rightarrow> int \<Rightarrow> (string \<times> int) list \<times> 'a CacheManager" where
  "get_stats c now =
     (let total = int (length (cache c));
          expired = sum_list [1. entry \<leftarrow> map snd (cache c), now \<ge> expires_at entry];
          active = total - expired
      in ([(''total_entries'', total),
           (''active_entries'', active),
           (''expired_entries'', expired),
           (''default_ttl'', default_ttl c)], c))"

text \<open>
  A run of \<open>set\<close> calls: key, payload, TTL, and the two clock readings of each. The
  calls are made one after the other on the same manager; an exception of one of them
  ends the run.
\<close>

type_synonym 'a set_call = "string \<times> 'a \<times> int option \<times> int \<times> int"

fun do_set :: "'a set_call \<Rightarrow> 'a CacheManager \<Rightarrow> cache_exception + 'a CacheManager" where
  "do_set (key, d, ttl, now, now_sweep) c = set_cache c key d ttl now now_sweep"

fun set_calls :: "'a CacheManager \<Rightarrow> 'a set_call list \<Rightarrow> cache_exception + 'a CacheManager" where
  "set_calls c [] = Inr c"
| "set_calls c (call # calls) =
     (case do_set call c of
        Inl e \<Rightarrow> Inl e
      | Inr c1 \<Rightarrow> set_calls c1 calls)"

text \<open>An entry is expired at \<open>now\<close> when \<open>now >= expires_at\<close>, as the code compares.\<close>

definition expired :: "int \<Rightarrow> 'a CacheEntry \<Rightarrow> bool" where
  "expired now entry \<longleftrightarrow> now \<ge> expires_at entry"

text \<open>
  For a \<open>set\<close> call and the default TTL of the manager: \<open>in_range\<close> says that the
  duration and the expiration time of the call are inside the range of their types,
  and \<open>entry_of_call\<close> is the entry the call then stores. \<open>ten_calls\<close> is a run of ten
  \<open>set\<close> calls on two keys, one stored already expired and one stored live.
\<close>

fun in_range :: "int \<Rightarrow> 'a set_call \<Rightarrow> bool" where
  "in_range dttl (key, d, ttl, now, now_sweep) =
     (let s = (case ttl of Some t \<Rightarrow> t | None \<Rightarrow> dttl)
      in - 999999999 \<le> s div 86400 \<and> s div 86400 \<le> 999999999 \<and>
         datetime_min \<le> now + 1000000 * s \<and> now + 1000000 * s \<le> datetime_max)"

fun entry_of_call :: "int \<Rightarrow> 'a set_call \<Rightarrow> string \<times> 'a CacheEntry" where
  "entry_of_call dttl (key, d, ttl, now, now_sweep) =
     (key, \<lparr>data = d, expires_at = now + 1000000 * (case ttl of Some t \<Rightarrow> t | None \<Rightarrow> dttl)\<rparr>)"

definition ten_calls :: "nat set_call list" where
  "ten_calls =
     [(''dead'', 0, Some 0, 0, 0), (''live'', 1, Some 3600, 1, 1),
      (''dead'', 2, Some 0, 2, 2), (''live'', 3, Some 3600, 3, 3),
      (''dead'', 4, Some 0, 4, 4), (''live'', 5, Some 3600, 5, 5),
      (''dead'', 6, Some 0, 6, 6), (''live'', 7, Some 3600, 7, 7),
      (''dead'', 8, Some 0, 8, 8), (''live'', 9, Some 3600, 9, 9)]"

section \<open>The content extractor (scraper.py)\<close>

text \<open>
  Exceptions. \<open>ParsingError\<close> is the class of exceptions.py; its text \<open>str(e)\<close> is the
  message it was built with. Every other exception that can reach the handler of
  \<open>_extract_content\<close> is raised inside the HTML library and is a subclass of
  \<open>Exception\<close>; it is \<open>LibraryException\<close> here, carrying its text \<open>str(e)\<close>.
\<close>

datatype exception = ParsingError string | LibraryException string

fun str_exc :: "exception \<Rightarrow> string" where
  "str_exc (ParsingError msg) = msg"
| "str_exc (LibraryException msg) = msg"

text \<open>
  The HTML library (BeautifulSoup with the lxml parser) is not part of the repository;
  its four uses in \<open>_extract_content\<close> are parameters of the model. Each returns
  \<open>Inl\<close> with the text of the exception when the library raises:
  \<^item> \<open>BeautifulSoup\<close>: \<open>BeautifulSoup(html, "lxml")\<close>, the parsed tree;
  \<^item> \<open>select_one\<close>: \<open>soup.select_one(selector)\<close>, the first matching element or \<open>None\<close>
    (an element is always truthy, so \<open>if content_element\<close> tests for \<open>None\<close>);
  \<^item> \<open>decompose_unwanted\<close>: the loop that calls \<open>decompose()\<close> on every element of
    \<open>content_element.select("script, style, nav, footer, aside")\<close>, giving the element
    without those subtrees;
  \<^item> \<open>get_text\<close>: \<open>content_element.get_text(separator="\n", strip=True)\<close>.
\<close>

record ('soup, 'tag) bs4 =
  BeautifulSoup :: "string \<Rightarrow> string + 'soup"
  select_one :: "'soup \<Rightarrow> string \<Rightarrow> string + 'tag option"
  decompose_unwanted :: "'tag \<Rightarrow> string + 'tag"
  get_text :: "'tag \<Rightarrow> string + string"

text \<open>
  \<open>DocumentationScraper\<close>: the two configuration attributes (the HTTP client is not
  modelled).
\<close>

record DocumentationScraper =
  timeout :: int
  max_content_length :: int

text \<open>
  Python's string operations. A \<open>char\<close> is a code point below 256; \<open>py_isspace\<close> and
  \<open>py_isprintable\<close> are \<open>str.isspace\<close> and \<open>str.isprintable\<close> on that range.
  \<open>py_strip\<close> is \<open>s.strip()\<close>, \<open>py_split s sep\<close> is \<open>s.split(sep)\<close> for a one-character
  separator, \<open>py_join sep xs\<close> is \<open>sep.join(xs)\<close>, \<open>slice_to s n\<close> is \<open>s[:n]\<close> (a negative
  \<open>n\<close> counts from the end) and \<open>repr_list\<close> is \<open>repr\<close> of a list of strings, which is what
  an f-string prints for \<open>list(selectors.keys())\<close>.
\<close>

definition py_isspace :: "char \<Rightarrow> bool" where
  "py_isspace c \<longleftrightarrow>
     (let n = (of_char c :: nat)
      in (9 \<le> n \<and> n \<le> 13) \<or> (28 \<le> n \<and> n \<le> 32) \<or> n = 133 \<or> n = 160)"

definition py_strip :: "string \<Rightarrow> string" where
  "py_strip s = rev (dropWhile py_isspace (rev (dropWhile py_isspace s)))"

fun split_acc :: "char \<Rightarrow> string \<Rightarrow> string \<Rightarrow> string list" where
  "split_acc sep acc [] = [rev acc]"
| "split_acc sep acc (c # cs) =
     (if c = sep then rev acc # split_acc sep [] cs else split_acc sep (c # acc) cs)"

definition py_split :: "string \<Rightarrow> char \<Rightarrow> string list" where
  "py_split s sep = split_acc sep [] s"

fun py_join :: "string \<Rightarrow> string list \<Rightarrow> string" where
  "py_join sep [] = []"
| "py_join sep [x] = x"
| "py_join sep (x # y # ys) = x @ sep @ py_join sep (y # ys)"

definition slice_to :: "string \<Rightarrow> int \<Rightarrow> string" where
  "slice_to s n = (if 0 \<le> n then take (nat n) s else take (nat (int (length s) + n)) s)"

definition hex_digit :: "nat \<Rightarrow> char" where
  "hex_digit n = ''0123456789abcdef'' ! (n mod 16)"

definition py_isprintable :: "char \<Rightarrow> bool" where
  "py_isprintable c \<longleftrightarrow>
     (let n = (of_char c :: nat)
      in (32 \<le> n \<and> n < 127) \<or> (161 \<le> n \<and> n \<noteq> 173))"

definition repr_char :: "char \<Rightarrow> char \<Rightarrow> string" where
  "repr_char quote c =
     (if c = quote \<or> c = CHR 0x5C then [CHR 0x5C, c]
      else if c = CHR 0x09 then [CHR 0x5C, CHR ''t'']
      else if c = CHR 0x0A then [CHR 0x5C, CHR ''n'']
      else if c = CHR 0x0D then [CHR 0x5C, CHR ''r'']
      else if py_isprintable c then [c]
      else [CHR 0x5C, CHR ''x'', hex_digit (of_char c div 16), hex_digit (of_char c)])"

definition repr_str :: "string \<Rightarrow> string" where
  "repr_str s =
     (let quote = (if CHR 0x27 \<in> set s \<and> CHR 0x22 \<notin> set s then CHR 0x22 else CHR 0x27)
      in [quote] @ concat (map (repr_char quote) s) @ [quote])"

definition repr_list :: "string list \<Rightarrow> string" where
  "repr_list xs = ''['' @ py_join '', '' (map repr_str xs) @ '']''"

text \<open>
  The loop over \<open>selectors.items()\<close>: the rules in order, leaving at the first element
  found. The dictionary of rules is the list of its (name, selector) pairs in insertion
  order.
\<close>

fun find_content ::
  "('soup \<Rightarrow> string \<Rightarrow> string + 'tag option) \<Rightarrow> 'soup \<Rightarrow> (string \<times> string) list
     \<Rightarrow> string + 'tag option" where
  "find_content sel soup [] = Inr None"
| "find_content sel soup ((name, selector) # rest) =
     (case sel soup selector of
        Inl e \<Rightarrow> Inl e
      | Inr (Some content_element) \<Rightarrow> Inr (Some content_element)
      | Inr None \<Rightarrow> find_content sel soup rest)"

text \<open>The whitespace clean-up: split into lines, strip each, drop the empty ones, join.\<close>

definition clean_whitespace :: "string \<Rightarrow> string" where
  "clean_whitespace text =
     (let lines = [py_strip line. line \<leftarrow> py_split text CHR 0x0A, py_strip line \<noteq> []]
      in py_join [CHR 0x0A] lines)"

text \<open>The truncation to \<open>max_content_length\<close>.\<close>

definition truncation_marker :: string where
  "truncation_marker = [CHR 0x0A, CHR 0x0A] @ ''[Content truncated...]''"

definition truncate_text :: "int \<Rightarrow> string \<Rightarrow> string" where
  "truncate_text max_length text =
     (if int (length text) > max_length then slice_to text max_length @ truncation_marker else text)"

text \<open>
  \<open>_extract_content\<close>: \<open>extract_body\<close> is the body of the \<open>try\<close> block, and
  \<open>extract_content\<close> adds the handler \<open>except Exception as e\<close>, which turns every
  exception of the body into a \<open>ParsingError\<close>.
\<close>

definition extract_body ::
  "DocumentationScraper \<Rightarrow> ('soup, 'tag) bs4 \<Rightarrow> string \<Rightarrow> (string \<times> string) list
     \<Rightarrow> exception + string" where
  "extract_body self lib html selectors =
     (case BeautifulSoup lib html of
        Inl e \<Rightarrow> Inl (LibraryException e)
      | Inr soup \<Rightarrow>
          (case find_content (select_one lib) soup selectors of
             Inl e \<Rightarrow> Inl (LibraryException e)
           | Inr None \<Rightarrow>
               Inl (ParsingError (''Could not find content using selectors: ''
                                    @ repr_list (map fst selectors)))
           | Inr (Some content_element) \<Rightarrow>
               (case decompose_unwanted lib content_element of
                  Inl e \<Rightarrow> Inl (LibraryException e)
                | Inr cleaned \<Rightarrow>
                    (case get_text lib cleaned of
                       Inl e \<Rightarrow> Inl (LibraryException e)
                     | Inr text \<Rightarrow>
                         Inr (truncate_text (max_content_length self) (clean_whitespace text))))))"

definition extract_content ::
  "DocumentationScraper \<Rightarrow> ('soup, 'tag) bs4 \<Rightarrow> string \<Rightarrow> (string \<times> string) list
     \<Rightarrow> exception + string" where
  "extract_content self lib html selectors =
     (case extract_body self lib html selectors of
        Inr text \<Rightarrow> Inr text
      | Inl e \<Rightarrow> Inl (ParsingError (''Failed to parse HTML content: '' @ str_exc e)))"

text \<open>
  A small instance of the library interface, for evaluating the model on concrete
  input: a parsed document is a table from selectors to the text of the first matching
  element; the empty document does not parse and the selector \<open>!\<close> is malformed.
\<close>

definition sample_bs4 :: "((string \<times> string) list, string) bs4" where
  "sample_bs4 =
     \<lparr>BeautifulSoup = (\<lambda>html. if html = [] then Inl ''Document is empty''
                              else Inr [(''main'', html), (''p'', [])]),
      select_one = (\<lambda>soup selector. if selector = ''!'' then Inl ''Invalid selector''
                                    else Inr (map_of soup selector)),
      decompose_unwanted = Inr,
      get_text = Inr\<rparr>"

section \<open>Facts about the dictionary operations\<close>

lemma map_of_fold_delete:
  "map_of (fold AList.delete ks al) k = (if k \<in> set ks then None else map_of al k)"
  by (induction ks arbitrary: al) (auto simp: delete_conv)

lemma fold_delete_filter:
  "fold AList.delete ks al = filter (\<lambda>p. fst p \<notin> set ks) al"
proof (induction ks arbitrary: al)
  case Nil
  show ?case by simp
next
  case (Cons k ks)
  have "fold AList.delete (k # ks) al = filter (\<lambda>p. fst p \<notin> set ks) (AList.delete k al)"
    using Cons.IH by simp
  also have "\<dots> = filter (\<lambda>p. fst p \<notin> set (k # ks)) al"
    by (induction al) auto
  finally show ?case .
qed

lemma expired_keys_eq:
  "[key. (key, entry) \<leftarrow> al, now \<ge> expires_at entry] = map fst (filter (\<lambda>p. expired now (snd p)) al)"
  by (induction al) (auto simp: expired_def)

lemma cleanup_expired_filter:
  assumes "distinct (map fst (cache c))"
  shows "cache (cleanup_expired c now) = filter (\<lambda>p. \<not> expired now (snd p)) (cache c)"
proof -
  let ?ks = "map fst (filter (\<lambda>p. expired now (snd p)) (cache c))"
  have "fst p \<notin> set ?ks \<longleftrightarrow> \<not> expired now (snd p)" if "p \<in> set (cache c)" for p
  proof
    assume "fst p \<notin> set ?ks"
    with that show "\<not> expired now (snd p)" by force
  next
    assume ne: "\<not> expired now (snd p)"
    show "fst p \<notin> set ?ks"
    proof
      assume "fst p \<in> set ?ks"
      then obtain q where q: "q \<in> set (cache c)" "expired now (snd q)" "fst q = fst p"
        by auto
      from assms q(1) that q(3) have "q = p"
        by (metis eq_key_imp_eq_value prod.collapse)
      with q(2) ne show False by simp
    qed
  qed
  then have "filter (\<lambda>p. fst p \<notin> set ?ks) (cache c) = filter (\<lambda>p. \<not> expired now (snd p)) (cache c)"
    by (intro filter_cong) auto
  then show ?thesis
    by (simp add: cleanup_expired_def expired_keys_eq fold_delete_filter)
qed

lemma default_ttl_cleanup_expired: "default_ttl (cleanup_expired c now) = default_ttl c"
  by (simp add: cleanup_expired_def)

text \<open>
  What \<open>set\<close> does, by the range of the call: inside it the entry is stored and the
  sweep runs on a multiple of 10; outside it \<open>OverflowError\<close> is raised.
\<close>

lemma set_cache_in_range:
  assumes "in_range (default_ttl c) (key, d, ttl, now, now_sweep)"
  shows "set_cache c key d ttl now now_sweep =
     Inr (if length (AList.update key (snd (entry_of_call (default_ttl c) (key, d, ttl, now, now_sweep))) (cache c)) mod 10 = 0
          then cleanup_expired
                 (c\<lparr>cache := AList.update key (snd (entry_of_call (default_ttl c) (key, d, ttl, now, now_sweep))) (cache c)\<rparr>)
                 now_sweep
          else c\<lparr>cache := AList.update key (snd (entry_of_call (default_ttl c) (key, d, ttl, now, now_sweep))) (cache c)\<rparr>)"
  using assms by (simp add: set_cache_def timedelta_seconds_def datetime_add_def Let_def)

lemma set_cache_overflow:
  assumes "\<not> in_range (default_ttl c) (key, d, ttl, now, now_sweep)"
  shows "set_cache c key d ttl now now_sweep = Inl OverflowError"
  using assms by (auto simp: set_cache_def timedelta_seconds_def datetime_add_def Let_def)

lemma do_set_overflow:
  assumes "\<not> in_range (default_ttl c) call"
  shows "do_set call c = Inl OverflowError"
proof -
  obtain key d ttl now now_sweep where call: "call = (key, d, ttl, now, now_sweep)"
    by (cases call) auto
  show ?thesis
    using assms set_cache_overflow [of c key d ttl now now_sweep] by (simp add: call)
qed

lemma do_set_default_ttl:
  assumes "do_set call c = Inr c1"
  shows "default_ttl c1 = default_ttl c"
proof -
  obtain key d ttl now now_sweep where call: "call = (key, d, ttl, now, now_sweep)"
    by (cases call) auto
  show ?thesis
  proof (cases "in_range (default_ttl c) (key, d, ttl, now, now_sweep)")
    case True
    from set_cache_in_range [OF this] assms show ?thesis
      by (auto simp: call default_ttl_cleanup_expired split: if_splits)
  next
    case False
    from set_cache_overflow [OF this] assms show ?thesis
      by (simp add: call)
  qed
qed

lemma set_calls_overflow:
  assumes "\<exists>call \<in> set calls. \<not> in_range (default_ttl c) call"
  shows "set_calls c calls = Inl OverflowError"
  using assms
proof (induction calls arbitrary: c)
  case Nil
  then show ?case by simp
next
  case (Cons call calls)
  show ?case
  proof (cases "do_set call c")
    case (Inl e)
    then show ?thesis by (cases e) simp
  next
    case (Inr c1)
    have ok: "in_range (default_ttl c) call"
      using do_set_overflow [of c call] Inr by auto
    have "default_ttl c1 = default_ttl c"
      using Inr by (rule do_set_default_ttl)
    with Cons.prems ok have "\<exists>call \<in> set calls. \<not> in_range (default_ttl c1) call"
      by auto
    then have "set_calls c1 calls = Inl OverflowError"
      by (rule Cons.IH)
    with Inr show ?thesis by simp
  qed
qed

lemma set_calls_snoc:
  "set_calls c (calls @ [call]) =
     (case set_calls c calls of Inl e \<Rightarrow> Inl e | Inr c1 \<Rightarrow> do_set call c1)"
  by (induction calls arbitrary: c) (auto split: sum.splits)

lemma map_of_set_cache:
  assumes "set_cache c key d ttl now now_sweep = Inr c1"
  shows "map_of (cache c1) key = None \<or>
         map_of (cache c1) key =
           Some (snd (entry_of_call (default_ttl c) (key, d, ttl, now, now_sweep)))"
proof (cases "in_range (default_ttl c) (key, d, ttl, now, now_sweep)")
  case True
  from set_cache_in_range [OF this] assms show ?thesis
    by (auto simp: cleanup_expired_def Let_def map_of_fold_delete update_conv' split: if_splits)
next
  case False
  from set_cache_overflow [OF this] assms show ?thesis by simp
qed

lemma update_fresh: "k \<notin> fst ` set al \<Longrightarrow> AList.update k v al = al @ [(k, v)]"
  by (induction al) auto

lemma fst_entry_of_call: "fst (entry_of_call dttl call) = fst call"
  by (cases call) simp

lemma do_set_no_sweep:
  assumes "fst call \<notin> fst ` set (cache c)" and "length (cache c) < 9"
    and "in_range (default_ttl c) call"
  shows "do_set call c = Inr (c\<lparr>cache := cache c @ [entry_of_call (default_ttl c) call]\<rparr>)"
proof -
  obtain key d ttl now now_sweep where call: "call = (key, d, ttl, now, now_sweep)"
    by (cases call) auto
  have "Suc (length (cache c)) mod 10 \<noteq> 0"
    using assms(2) by (simp add: mod_Suc)
  then show ?thesis
    using assms(1) set_cache_in_range [of c key d ttl now now_sweep] assms(3)
    by (simp add: call update_fresh)
qed

lemma set_calls_no_sweep:
  assumes "distinct (map fst calls)"
    and "fst ` set calls \<inter> fst ` set (cache c) = {}"
    and "length (cache c) + length calls < 10"
    and "\<forall>call \<in> set calls. in_range (default_ttl c) call"
  shows "set_calls c calls = Inr (c\<lparr>cache := cache c @ map (entry_of_call (default_ttl c)) calls\<rparr>)"
  using assms
proof (induction calls arbitrary: c)
  case Nil
  show ?case by simp
next
  case (Cons call calls)
  let ?c1 = "c\<lparr>cache := cache c @ [entry_of_call (default_ttl c) call]\<rparr>"
  have step: "do_set call c = Inr ?c1"
    using Cons.prems by (intro do_set_no_sweep) auto
  have "set_calls ?c1 calls = Inr (?c1\<lparr>cache := cache ?c1 @ map (entry_of_call (default_ttl ?c1)) calls\<rparr>)"
    using Cons.prems by (intro Cons.IH) (auto simp: fst_entry_of_call)
  then show ?case
    using step by simp
qed

lemma set_cache_sweep:
  assumes "distinct (map fst (cache c))"
    and "in_range (default_ttl c) (key, d, ttl, now, now_sweep)"
  shows "set_cache c key d ttl now now_sweep =
     Inr (c\<lparr>cache :=
       (let al = AList.update key (snd (entry_of_call (default_ttl c) (key, d, ttl, now, now_sweep))) (cache c)
        in if length al mod 10 = 0 then filter (\<lambda>p. \<not> expired now_sweep (snd p)) al else al)\<rparr>)"
proof -
  let ?e = "snd (entry_of_call (default_ttl c) (key, d, ttl, now, now_sweep))"
  let ?c1 = "c\<lparr>cache := AList.update key ?e (cache c)\<rparr>"
  have "distinct (map fst (cache ?c1))"
    using assms(1) by (simp add: distinct_update)
  from cleanup_expired_filter [OF this, of now_sweep]
  have "cleanup_expired ?c1 now_sweep
          = c\<lparr>cache := filter (\<lambda>p. \<not> expired now_sweep (snd p)) (AList.update key ?e (cache c))\<rparr>"
    by (simp add: cleanup_expired_def)
  then show ?thesis
    unfolding set_cache_in_range [OF assms(2)] by (simp add: Let_def)
qed

text \<open>
  A TTL whose expiration time is a \<open>datetime\<close>, counted from a reading that is one, is
  a duration \<open>timedelta\<close> accepts.
\<close>

lemma in_range_positive:
  assumes "0 \<le> ttl" and "datetime_min \<le> now" and "now + 1000000 * ttl \<le> datetime_max"
  shows "in_range dttl (key, d, Some ttl, now, now_sweep)"
proof -
  have "ttl \<le> 315537897599"
    using assms(2,3) by (simp add: datetime_min_def datetime_max_def)
  then have "ttl div 86400 \<le> 315537897599 div 86400"
    by (intro zdiv_mono1) simp_all
  moreover have "0 \<le> ttl div 86400"
    using assms(1) by (simp add: pos_imp_zdiv_nonneg_iff)
  ultimately show ?thesis
    using assms by (simp add: datetime_min_def datetime_max_def)
qed

lemma in_range_nonpositive:
  assumes "ttl \<le> 0" and "now \<le> datetime_max" and "datetime_min \<le> now + 1000000 * ttl"
  shows "in_range dttl (key, d, Some ttl, now, now_sweep)"
proof -
  have "- 315537897599 \<le> ttl"
    using assms(2,3) by (simp add: datetime_min_def datetime_max_def)
  then have "(- 315537897599) div 86400 \<le> ttl div 86400"
    by (intro zdiv_mono1) simp_all
  moreover have "ttl div 86400 \<le> 0"
    using assms(1) by (simp add: div_nonpos_pos_le0)
  ultimately show ?thesis
    using assms by (simp add: datetime_min_def datetime_max_def)
qed

section \<open>Facts about the extractor\<close>

lemma find_content_skip:
  assumes "\<forall>r \<in> set pre. sel soup (snd r) = Inr None"
  shows "find_content sel soup (pre @ rest) = find_content sel soup rest"
  using assms by (induction pre) auto


lemma split_acc_chars:
  "l \<in> set (split_acc sep acc s) \<Longrightarrow> set l \<subseteq> set acc \<union> set s"
proof (induction s arbitrary: acc)
  case Nil
  then show ?case by simp
next
  case (Cons c cs)
  then show ?case by (fastforce split: if_splits)
qed

lemma py_strip_blank:
  assumes "\<forall>c \<in> set s. py_isspace c"
  shows "py_strip s = []"
proof -
  have "dropWhile py_isspace s = []"
    using assms by (induction s) auto
  then show ?thesis
    unfolding py_strip_def by (simp only: rev.simps dropWhile.simps)
qed

lemma clean_whitespace_blank:
  assumes "\<forall>c \<in> set raw. py_isspace c"
  shows "clean_whitespace raw = []"
proof -
  have blank: "py_strip line = []" if "line \<in> set (py_split raw (CHR 0x0A))" for line
  proof -
    from that have "set line \<subseteq> set raw"
      using split_acc_chars [of line "CHR 0x0A" "[]" raw] by (simp add: py_split_def)
    with assms show ?thesis by (intro py_strip_blank) auto
  qed
  have "[py_strip line. line \<leftarrow> ls, py_strip line \<noteq> []] = []"
    if "\<forall>line \<in> set ls. py_strip line = []" for ls
    using that by (induction ls) auto
  then have "[py_strip line. line \<leftarrow> py_split raw (CHR 0x0A), py_strip line \<noteq> []] = []"
    using blank by blast
  then show ?thesis
    unfolding clean_whitespace_def Let_def by (simp only: py_join.simps)
qed

section \<open>The cache claims\<close>

text \<open>
  C1. \<open>get\<close> never returns a value whose entry has \<open>expires_at <= now\<close>: a returned
  value is the payload of the entry stored under the key, and that entry expires after
  \<open>now\<close>. When the entry under the key is present and expired, \<open>get\<close> reports a miss
  and deletes the entry from the store.
\<close>

theorem get_never_returns_expired:
  "(\<forall>v. fst (get c now key) = Some v \<longrightarrow>
      (\<exists>e. map_of (cache c) key = Some e \<and> data e = v \<and> now < expires_at e)) \<and>
   (\<forall>e. map_of (cache c) key = Some e \<and> expires_at e \<le> now \<longrightarrow>
      fst (get c now key) = None \<and>
      cache (snd (get c now key)) = AList.delete key (cache c) \<and>
      map_of (cache (snd (get c now key))) key = None)"
  by (auto simp: get_def delete_conv split: option.splits if_splits)

theorem get_never_returns_expired_witness:
  "get \<lparr>default_ttl = 3600, cache = [(''a'', \<lparr>data = 1::nat, expires_at = 7\<rparr>), (''k'', \<lparr>data = 2, expires_at = 5\<rparr>)]\<rparr> 5 ''k''
     = (None, \<lparr>default_ttl = 3600, cache = [(''a'', \<lparr>data = 1::nat, expires_at = 7\<rparr>)]\<rparr>)"
  using get_never_returns_expired [of "\<lparr>default_ttl = 3600, cache = [(''a'', \<lparr>data = 1::nat, expires_at = 7\<rparr>), (''k'', \<lparr>data = 2, expires_at = 5\<rparr>)]\<rparr>" 5 "''k''"]
  by (simp add: get_def)

text \<open>
  C5, as the code has it. Round trip, for a TTL whose expiration time is a \<open>datetime\<close>:
  when \<open>ttl > 0\<close>, the clock reading \<open>now\<close> of the \<open>set\<close> is a \<open>datetime\<close> and
  \<open>now + ttl\<close> is not after \<open>datetime.max\<close>, the call \<open>set(key, v, ttl)\<close> returns, and a
  \<open>get(key)\<close> at a time before the TTL has elapsed since the \<open>set\<close> (and not before the
  sweep's clock reading) returns \<open>v\<close> and leaves the store as it is. The dictionary has
  unique keys. When \<open>ttl > 0\<close> and \<open>now + ttl\<close> is after \<open>datetime.max\<close>, \<open>set\<close> raises
  \<open>OverflowError\<close>.
\<close>

theorem set_get_roundtrip:
  "(distinct (map fst (cache c)) \<and> 0 < ttl \<and>
    datetime_min \<le> now \<and> now + 1000000 * ttl \<le> datetime_max \<and>
    now_sweep \<le> now_get \<and> now_get < now + 1000000 * ttl \<longrightarrow>
      (\<exists>c1. set_cache c key v (Some ttl) now now_sweep = Inr c1 \<and>
            get c1 now_get key = (Some v, c1))) \<and>
   (0 < ttl \<and> datetime_max < now + 1000000 * ttl \<longrightarrow>
      set_cache c key v (Some ttl) now now_sweep = Inl OverflowError)"
proof (intro conjI impI)
  assume a: "distinct (map fst (cache c)) \<and> 0 < ttl \<and>
    datetime_min \<le> now \<and> now + 1000000 * ttl \<le> datetime_max \<and>
    now_sweep \<le> now_get \<and> now_get < now + 1000000 * ttl"
  let ?e = "\<lparr>data = v, expires_at = now + 1000000 * ttl\<rparr>"
  let ?al = "AList.update key ?e (cache c)"
  have r: "in_range (default_ttl c) (key, v, Some ttl, now, now_sweep)"
    using a by (intro in_range_positive) simp_all
  have m1: "map_of ?al key = Some ?e"
    by (simp add: update_conv')
  have live: "\<not> expired now_sweep ?e"
    using a by (simp add: expired_def)
  have m2: "map_of (filter (\<lambda>p. \<not> expired now_sweep (snd p)) ?al) key = Some ?e"
    using map_of_filter_in [OF m1, of "\<lambda>k e. \<not> expired now_sweep e"] live
    by (simp add: case_prod_unfold)
  let ?c1 = "c\<lparr>cache := (if length ?al mod 10 = 0 then filter (\<lambda>p. \<not> expired now_sweep (snd p)) ?al else ?al)\<rparr>"
  have s: "set_cache c key v (Some ttl) now now_sweep = Inr ?c1"
    using a set_cache_sweep [OF _ r] by (simp add: Let_def)
  have "map_of (cache ?c1) key = Some ?e"
    using m1 m2 by simp
  then have "get ?c1 now_get key = (Some v, ?c1)"
    using a by (simp add: get_def)
  with s show "\<exists>c1. set_cache c key v (Some ttl) now now_sweep = Inr c1 \<and>
            get c1 now_get key = (Some v, c1)"
    by blast
next
  assume "0 < ttl \<and> datetime_max < now + 1000000 * ttl"
  then have "\<not> in_range (default_ttl c) (key, v, Some ttl, now, now_sweep)"
    by simp
  then show "set_cache c key v (Some ttl) now now_sweep = Inl OverflowError"
    by (rule set_cache_overflow)
qed

theorem set_get_roundtrip_witness:
  "set_cache (init 3600) ''paper:index'' (42::nat) (Some 60) 0 1
     = Inr \<lparr>default_ttl = 3600, cache = [(''paper:index'', \<lparr>data = 42::nat, expires_at = 60000000\<rparr>)]\<rparr> \<and>
   get \<lparr>default_ttl = 3600, cache = [(''paper:index'', \<lparr>data = 42::nat, expires_at = 60000000\<rparr>)]\<rparr>
       59999999 ''paper:index''
     = (Some 42, \<lparr>default_ttl = 3600, cache = [(''paper:index'', \<lparr>data = 42::nat, expires_at = 60000000\<rparr>)]\<rparr>) \<and>
   set_cache (init 3600) ''paper:index'' (42::nat) (Some 253402300800) 0 1 = Inl OverflowError"
  using set_get_roundtrip [of "init 3600 :: nat CacheManager" 60 0 1 59999999 "''paper:index''" 42]
    set_get_roundtrip [of "init 3600 :: nat CacheManager" 253402300800 0 1 59999999 "''paper:index''" 42]
  by (simp add: init_def set_cache_def timedelta_seconds_def datetime_add_def
        datetime_min_def datetime_max_def)

text \<open>
  C5 as stated fails for a TTL that leaves the range of \<open>datetime\<close>: with
  \<open>ttl = 10 ** 12\<close> seconds, on a new cache at the clock reading 2026-11-04 00:00:00,
  \<open>set\<close> raises \<open>OverflowError\<close> and stores nothing, and a \<open>get\<close> of the key one
  microsecond later reports a miss instead of the value.
\<close>

theorem set_get_roundtrip_counterexample:
  "(0::int) < 1000000000000 \<and>
   datetime_min \<le> 1793750400000000 \<and> 1793750400000000 \<le> datetime_max \<and>
   set_cache (init 3600) ''paper:index'' (42::nat) (Some 1000000000000)
       1793750400000000 1793750400000000
     = Inl OverflowError \<and>
   1793750400000001 < 1793750400000000 + 1000000 * (1000000000000::int) \<and>
   fst (get (init 3600 :: nat CacheManager) 1793750400000001 ''paper:index'') = None"
  by (simp add: set_cache_def timedelta_seconds_def datetime_add_def
        datetime_min_def datetime_max_def init_def get_def)

text \<open>
  C6, as the code has it. When \<open>ttl\<close> is zero or negative, the clock reading \<open>now\<close> of
  the \<open>set\<close> is a \<open>datetime\<close> and \<open>now + ttl\<close> is not before \<open>datetime.min\<close>, the call
  \<open>set(key, v, ttl)\<close> returns like any other (it stores the entry unless the sweep of
  that very call removes it), and the entry is stale at once: a \<open>get\<close> of the key at any
  time at or after the \<open>set\<close> reports a miss and leaves no entry under the key. When
  \<open>now + ttl\<close> is before \<open>datetime.min\<close>, \<open>set\<close> raises \<open>OverflowError\<close>.
\<close>

theorem set_nonpositive_ttl_is_stale:
  "(ttl \<le> 0 \<and> now \<le> datetime_max \<and> datetime_min \<le> now + 1000000 * ttl \<and> now \<le> now_get \<longrightarrow>
      (\<exists>c1. set_cache c key v (Some ttl) now now_sweep = Inr c1 \<and>
            fst (get c1 now_get key) = None \<and>
            map_of (cache (snd (get c1 now_get key))) key = None \<and>
            (length (AList.update key \<lparr>data = v, expires_at = now + 1000000 * ttl\<rparr> (cache c)) mod 10 \<noteq> 0 \<longrightarrow>
               map_of (cache c1) key = Some \<lparr>data = v, expires_at = now + 1000000 * ttl\<rparr>))) \<and>
   (ttl \<le> 0 \<and> now + 1000000 * ttl < datetime_min \<longrightarrow>
      set_cache c key v (Some ttl) now now_sweep = Inl OverflowError)"
proof (intro conjI impI)
  assume a: "ttl \<le> 0 \<and> now \<le> datetime_max \<and> datetime_min \<le> now + 1000000 * ttl \<and> now \<le> now_get"
  let ?e = "\<lparr>data = v, expires_at = now + 1000000 * ttl\<rparr>"
  let ?al = "AList.update key ?e (cache c)"
  have r: "in_range (default_ttl c) (key, v, Some ttl, now, now_sweep)"
    using a by (intro in_range_nonpositive) simp_all
  have stale: "now + 1000000 * ttl \<le> now_get"
    using a by simp
  have miss: "fst (get c1 now_get key) = None \<and> map_of (cache (snd (get c1 now_get key))) key = None"
    if "map_of (cache c1) key = None \<or> map_of (cache c1) key = Some ?e" for c1 :: "'a CacheManager"
    using that stale by (auto simp: get_def delete_conv)
  obtain c1 where s: "set_cache c key v (Some ttl) now now_sweep = Inr c1"
    using set_cache_in_range [OF r] by simp
  have m: "map_of (cache c1) key = None \<or> map_of (cache c1) key = Some ?e"
    using map_of_set_cache [OF s] by simp
  have g3: "length ?al mod 10 \<noteq> 0 \<longrightarrow> map_of (cache c1) key = Some ?e"
    using s set_cache_in_range [OF r] by (auto simp: update_conv')
  from s miss [OF m] g3
  show "\<exists>c1. set_cache c key v (Some ttl) now now_sweep = Inr c1 \<and>
            fst (get c1 now_get key) = None \<and>
            map_of (cache (snd (get c1 now_get key))) key = None \<and>
            (length ?al mod 10 \<noteq> 0 \<longrightarrow> map_of (cache c1) key = Some ?e)"
    by blast
next
  assume "ttl \<le> 0 \<and> now + 1000000 * ttl < datetime_min"
  then have "\<not> in_range (default_ttl c) (key, v, Some ttl, now, now_sweep)"
    by simp
  then show "set_cache c key v (Some ttl) now now_sweep = Inl OverflowError"
    by (rule set_cache_overflow)
qed

theorem set_nonpositive_ttl_is_stale_witness:
  "set_cache (init 3600) ''player:steve'' (7::nat) (Some 0) 5 5
     = Inr \<lparr>default_ttl = 3600, cache = [(''player:steve'', \<lparr>data = 7::nat, expires_at = 5\<rparr>)]\<rparr> \<and>
   get \<lparr>default_ttl = 3600, cache = [(''player:steve'', \<lparr>data = 7::nat, expires_at = 5\<rparr>)]\<rparr>
       5 ''player:steve''
     = (None, \<lparr>default_ttl = 3600, cache = []\<rparr>) \<and>
   set_cache (init 3600) ''player:steve'' (7::nat) (Some (- 62135596801)) 5 5 = Inl OverflowError"
  using set_nonpositive_ttl_is_stale [of 0 5 5 "init 3600 :: nat CacheManager" "''player:steve''" 7 5]
    set_nonpositive_ttl_is_stale [of "- 62135596801" 5 5 "init 3600 :: nat CacheManager" "''player:steve''" 7 5]
  by (simp add: init_def set_cache_def timedelta_seconds_def datetime_add_def
        datetime_min_def datetime_max_def get_def)

text \<open>
  C6 as stated fails for a negative TTL that leaves the range of \<open>datetime\<close>: with
  \<open>ttl = -10 ** 11\<close> seconds, at the clock reading 2026-11-04 00:00:00, \<open>set\<close> does not
  succeed; it raises \<open>OverflowError\<close>.
\<close>

theorem set_nonpositive_ttl_counterexample:
  "- 100000000000 \<le> (0::int) \<and>
   datetime_min \<le> 1793750400000000 \<and> 1793750400000000 \<le> datetime_max \<and>
   set_cache (init 3600) ''player:steve'' (7::nat) (Some (- 100000000000))
       1793750400000000 1793750400000000
     = Inl OverflowError"
  by (simp add: set_cache_def timedelta_seconds_def datetime_add_def
        datetime_min_def datetime_max_def init_def)

text \<open>
  C7, as the code has it. The sweep runs inside \<open>set\<close> exactly when the number of
  entries after the insertion is a multiple of 10, and it then leaves exactly the
  entries that are not expired at the sweep's clock reading. Ten \<open>set\<close> calls with
  pairwise different keys on a new cache therefore end with the sweep: when the tenth
  returns, the store holds exactly the entries of the ten calls that are still live.
  (A call whose expiration time is outside the range of \<open>datetime\<close> inserts nothing and
  does not return: it raises \<open>OverflowError\<close>.)
\<close>

theorem tenth_set_sweeps:
  "(distinct (map fst (cache c)) \<longrightarrow>
      set_cache c key d ttl now now_sweep =
        (if in_range (default_ttl c) (key, d, ttl, now, now_sweep)
         then Inr (c\<lparr>cache :=
                (let al = AList.update key (snd (entry_of_call (default_ttl c) (key, d, ttl, now, now_sweep))) (cache c)
                 in if length al mod 10 = 0 then filter (\<lambda>p. \<not> expired now_sweep (snd p)) al else al)\<rparr>)
         else Inl OverflowError)) \<and>
   (length calls = 9 \<and> distinct (map fst (calls @ [(key, d, ttl, now, now_sweep)])) \<longrightarrow>
      set_calls (init dttl) (calls @ [(key, d, ttl, now, now_sweep)]) =
        (if \<forall>call \<in> set (calls @ [(key, d, ttl, now, now_sweep)]). in_range dttl call
         then Inr \<lparr>default_ttl = dttl,
                   cache = filter (\<lambda>p. \<not> expired now_sweep (snd p))
                             (map (entry_of_call dttl) (calls @ [(key, d, ttl, now, now_sweep)]))\<rparr>
         else Inl OverflowError))"
proof (intro conjI impI)
  assume "distinct (map fst (cache c))"
  then show "set_cache c key d ttl now now_sweep =
        (if in_range (default_ttl c) (key, d, ttl, now, now_sweep)
         then Inr (c\<lparr>cache :=
                (let al = AList.update key (snd (entry_of_call (default_ttl c) (key, d, ttl, now, now_sweep))) (cache c)
                 in if length al mod 10 = 0 then filter (\<lambda>p. \<not> expired now_sweep (snd p)) al else al)\<rparr>)
         else Inl OverflowError)"
    using set_cache_sweep [of c key d ttl now now_sweep]
      set_cache_overflow [of c key d ttl now now_sweep]
    by (cases "in_range (default_ttl c) (key, d, ttl, now, now_sweep)") simp_all
next
  let ?call = "(key, d, ttl, now, now_sweep)"
  let ?c0 = "init dttl :: 'a CacheManager"
  assume a: "length calls = 9 \<and> distinct (map fst (calls @ [?call]))"
  show "set_calls ?c0 (calls @ [?call]) =
        (if \<forall>call \<in> set (calls @ [?call]). in_range dttl call
         then Inr \<lparr>default_ttl = dttl,
                   cache = filter (\<lambda>p. \<not> expired now_sweep (snd p))
                             (map (entry_of_call dttl) (calls @ [?call]))\<rparr>
         else Inl OverflowError)"
  proof (cases "\<forall>call \<in> set (calls @ [?call]). in_range dttl call")
    case False
    then have "\<exists>call \<in> set (calls @ [?call]). \<not> in_range (default_ttl ?c0) call"
      by (simp add: init_def)
    then have "set_calls ?c0 (calls @ [?call]) = Inl OverflowError"
      by (rule set_calls_overflow)
    with False show ?thesis by simp
  next
    case True
    let ?c9 = "?c0\<lparr>cache := cache ?c0 @ map (entry_of_call (default_ttl ?c0)) calls\<rparr>"
    have nine: "set_calls ?c0 calls = Inr ?c9"
      using a True by (intro set_calls_no_sweep) (auto simp: init_def)
    have c9: "cache ?c9 = map (entry_of_call dttl) calls" "default_ttl ?c9 = dttl"
      by (simp_all add: init_def)
    have keys9: "map fst (cache ?c9) = map fst calls"
      unfolding c9(1) by (simp add: fst_entry_of_call cong: map_cong)
    have d9: "distinct (map fst (cache ?c9))"
      using a unfolding keys9 by simp
    have r9: "in_range (default_ttl ?c9) ?call"
      using True unfolding c9(2) by simp
    have fresh: "key \<notin> fst ` set (cache ?c9)"
    proof -
      have "key \<notin> set (map fst calls)" using a by simp
      then show ?thesis using keys9 by (metis image_set)
    qed
    have upd: "AList.update key (snd (entry_of_call dttl ?call)) (cache ?c9)
                 = map (entry_of_call dttl) (calls @ [?call])"
      using update_fresh [OF fresh] c9(1) by simp
    have len: "length (map (entry_of_call dttl) (calls @ [?call])) mod 10 = 0"
      using a by simp
    have "set_calls ?c0 (calls @ [?call]) = set_cache ?c9 key d ttl now now_sweep"
      using nine by (simp add: set_calls_snoc)
    also have "\<dots> = Inr (?c9\<lparr>cache := filter (\<lambda>p. \<not> expired now_sweep (snd p))
                                       (map (entry_of_call dttl) (calls @ [?call]))\<rparr>)"
      unfolding set_cache_sweep [OF d9 r9] c9(2) upd Let_def using len by simp
    finally show ?thesis
      using True by (simp add: init_def)
  qed
qed

theorem tenth_set_sweeps_witness:
  "set_calls (init 3600)
     [(''k0'', 0::nat, Some 0, 0, 0), (''k1'', 1, Some 60, 1, 1), (''k2'', 2, Some (-5), 2, 2),
      (''k3'', 3, None, 3, 3), (''k4'', 4, Some 0, 4, 4), (''k5'', 5, Some 60, 5, 5),
      (''k6'', 6, Some 0, 6, 6), (''k7'', 7, Some 60, 7, 7), (''k8'', 8, Some 0, 8, 8),
      (''k9'', 9, Some 0, 9, 9)]
   = Inr \<lparr>default_ttl = 3600,
          cache = [(''k1'', \<lparr>data = 1, expires_at = 60000001\<rparr>), (''k3'', \<lparr>data = 3, expires_at = 3600000003\<rparr>),
                   (''k5'', \<lparr>data = 5, expires_at = 60000005\<rparr>), (''k7'', \<lparr>data = 7, expires_at = 60000007\<rparr>)]\<rparr>"
  using tenth_set_sweeps [of "init 3600" "''k9''" "9::nat" "Some 0" 9 9
      "[(''k0'', 0::nat, Some 0, 0, 0), (''k1'', 1, Some 60, 1, 1), (''k2'', 2, Some (-5), 2, 2),
        (''k3'', 3, None, 3, 3), (''k4'', 4, Some 0, 4, 4), (''k5'', 5, Some 60, 5, 5),
        (''k6'', 6, Some 0, 6, 6), (''k7'', 7, Some 60, 7, 7), (''k8'', 8, Some 0, 8, 8)]" 3600]
  by (simp add: expired_def datetime_min_def datetime_max_def)

text \<open>
  C7 as stated fails: ten \<open>set\<close> calls on a new cache that alternate between two keys
  leave two entries, so the entry count is never a multiple of 10 and no sweep runs.
  When the tenth call returns (its clock readings are 9), the entry of \<open>dead\<close>, which
  expired at 8, is still in the store.
\<close>

theorem tenth_set_counterexample:
  "set_calls (init 3600) ten_calls
     = Inr \<lparr>default_ttl = 3600,
            cache = [(''dead'', \<lparr>data = 8, expires_at = 8\<rparr>),
                     (''live'', \<lparr>data = 9, expires_at = 3600000009\<rparr>)]\<rparr> \<and>
   map_of [(''dead'', \<lparr>data = 8::nat, expires_at = 8\<rparr>),
           (''live'', \<lparr>data = 9, expires_at = 3600000009\<rparr>)] ''dead''
     = Some \<lparr>data = 8, expires_at = 8\<rparr> \<and>
   expired 9 \<lparr>data = 8::nat, expires_at = 8\<rparr>"
  by (simp add: ten_calls_def init_def set_cache_def Let_def timedelta_seconds_def
        datetime_add_def datetime_min_def datetime_max_def expired_def)

text \<open>
  C8. \<open>get_stats\<close> leaves the manager as it is, and the dictionary it returns has the
  total number of entries, the number of entries with \<open>now >= expires_at\<close> under
  \<open>expired_entries\<close>, the configured default TTL, and
  \<open>total_entries = active_entries + expired_entries\<close>.
\<close>

theorem get_stats_read_only:
  "snd (get_stats c now) = c \<and>
   (\<exists>total active exp.
      map_of (fst (get_stats c now)) ''total_entries'' = Some total \<and>
      map_of (fst (get_stats c now)) ''active_entries'' = Some active \<and>
      map_of (fst (get_stats c now)) ''expired_entries'' = Some exp \<and>
      map_of (fst (get_stats c now)) ''default_ttl'' = Some (default_ttl c) \<and>
      total = int (length (cache c)) \<and>
      exp = int (length (filter (\<lambda>p. expired now (snd p)) (cache c))) \<and>
      total = active + exp)"
proof -
  have "sum_list [1. entry \<leftarrow> map snd al, now \<ge> expires_at entry]
          = int (length (filter (\<lambda>p. expired now (snd p)) al))" for al :: "(string \<times> 'a CacheEntry) list"
    by (induction al) (auto simp: expired_def)
  then show ?thesis
    by (simp add: get_stats_def Let_def)
qed

section \<open>The extractor claims\<close>

text \<open>
  C2. The rules are tried in the given order and the first rule that finds an element
  decides: when no rule before it finds one, the element of that rule is the content
  element, whatever rules follow; the result is made from that element alone (its text
  without the unwanted subtrees, cleaned and truncated, or the \<open>ParsingError\<close> of an
  exception the library raises on the way); and it is the result of the rule list cut
  off after that rule, so the rules after it are not consulted.
\<close>

theorem first_matching_rule_wins:
  assumes "BeautifulSoup lib html = Inr soup"
    and "\<forall>r \<in> set pre. select_one lib soup (snd r) = Inr None"
    and "select_one lib soup selector = Inr (Some el)"
  shows "find_content (select_one lib) soup (pre @ (name, selector) # post) = Inr (Some el) \<and>
         extract_content self lib html (pre @ (name, selector) # post) =
           (case decompose_unwanted lib el of
              Inl e \<Rightarrow> Inl (ParsingError (''Failed to parse HTML content: '' @ e))
            | Inr cleaned \<Rightarrow>
                (case get_text lib cleaned of
                   Inl e \<Rightarrow> Inl (ParsingError (''Failed to parse HTML content: '' @ e))
                 | Inr raw \<Rightarrow>
                     Inr (truncate_text (max_content_length self) (clean_whitespace raw)))) \<and>
         extract_content self lib html (pre @ (name, selector) # post)
           = extract_content self lib html (pre @ [(name, selector)])"
proof -
  have "find_content (select_one lib) soup (pre @ (name, selector) # rest) = Inr (Some el)" for rest
    using assms(2,3)
      find_content_skip [where sel = "select_one lib" and soup = soup and pre = pre
                           and rest = "(name, selector) # rest"]
    by simp
  from this [of post] this [of "[]"] show ?thesis
    using assms(1) by (simp add: extract_content_def extract_body_def split: sum.splits)
qed

theorem first_matching_rule_wins_witness:
  "extract_content \<lparr>timeout = 30, max_content_length = 1000\<rparr> sample_bs4 ''Hello''
      [(''content'', ''.content''), (''main'', ''main''), (''broken'', ''!''), (''para'', ''p'')]
     = Inr ''Hello'' \<and>
   extract_content \<lparr>timeout = 30, max_content_length = 1000\<rparr> sample_bs4 ''Hello''
      [(''content'', ''.content''), (''main'', ''main'')]
     = Inr ''Hello''"
proof -
  have h1: "BeautifulSoup sample_bs4 ''Hello'' = Inr [(''main'', ''Hello''), (''p'', [])]"
    by (simp add: sample_bs4_def)
  have h2: "\<forall>r \<in> set [(''content'', ''.content'')].
              select_one sample_bs4 [(''main'', ''Hello''), (''p'', [])] (snd r) = Inr None"
    by (simp add: sample_bs4_def)
  have h3: "select_one sample_bs4 [(''main'', ''Hello''), (''p'', [])] ''main'' = Inr (Some ''Hello'')"
    by (simp add: sample_bs4_def)
  have h4: "decompose_unwanted sample_bs4 ''Hello'' = Inr ''Hello''"
    by (simp add: sample_bs4_def)
  have h5: "get_text sample_bs4 ''Hello'' = Inr ''Hello''"
    by (simp add: sample_bs4_def)
  have cw: "clean_whitespace ''Hello'' = ''Hello''"
    by (simp add: clean_whitespace_def py_split_def py_strip_def py_isspace_def)
  note w = first_matching_rule_wins [OF h1 h2 h3, of "''main''" "[(''broken'', ''!''), (''para'', ''p'')]"
      "\<lparr>timeout = 30, max_content_length = 1000\<rparr>"]
  have long: "extract_content \<lparr>timeout = 30, max_content_length = 1000\<rparr> sample_bs4 ''Hello''
      [(''content'', ''.content''), (''main'', ''main''), (''broken'', ''!''), (''para'', ''p'')]
     = Inr ''Hello''"
    using w [THEN conjunct2, THEN conjunct1] by (simp add: h4 h5 cw truncate_text_def)
  have short: "extract_content \<lparr>timeout = 30, max_content_length = 1000\<rparr> sample_bs4 ''Hello''
      [(''content'', ''.content''), (''main'', ''main''), (''broken'', ''!''), (''para'', ''p'')]
     = extract_content \<lparr>timeout = 30, max_content_length = 1000\<rparr> sample_bs4 ''Hello''
      [(''content'', ''.content''), (''main'', ''main'')]"
    using w [THEN conjunct2, THEN conjunct2] by simp
  from long short show ?thesis
    by simp
qed

text \<open>
  C3. When the cleaned text is longer than \<open>max_content_length\<close> (zero or positive),
  the result is its first \<open>max_content_length\<close> characters followed by the marker, two
  line feeds and \<open>[Content truncated...]\<close>; the marker has 24 characters, which are not
  counted against the bound, so that the result has \<open>max_content_length + 24\<close>
  characters; and with \<open>max_content_length = 0\<close> the result is the marker alone.
\<close>

theorem truncation_appends_marker:
  assumes "BeautifulSoup lib html = Inr soup"
    and "find_content (select_one lib) soup selectors = Inr (Some el)"
    and "decompose_unwanted lib el = Inr cleaned"
    and "get_text lib cleaned = Inr raw"
    and "0 \<le> max_content_length self"
    and "int (length (clean_whitespace raw)) > max_content_length self"
  shows "extract_content self lib html selectors
           = Inr (take (nat (max_content_length self)) (clean_whitespace raw)
                    @ [CHR 0x0A, CHR 0x0A] @ ''[Content truncated...]'') \<and>
         length (take (nat (max_content_length self)) (clean_whitespace raw)) = nat (max_content_length self) \<and>
         (\<exists>out. extract_content self lib html selectors = Inr out \<and>
                length out = nat (max_content_length self) + 24) \<and>
         (max_content_length self = 0 \<longrightarrow>
            extract_content self lib html selectors
              = Inr ([CHR 0x0A, CHR 0x0A] @ ''[Content truncated...]''))"
  using assms
  by (auto simp: extract_content_def extract_body_def truncate_text_def slice_to_def
        truncation_marker_def)

theorem truncation_appends_marker_witness:
  "extract_content \<lparr>timeout = 30, max_content_length = 3\<rparr> sample_bs4 ''Hello'' [(''main'', ''main'')]
     = Inr (''Hel'' @ [CHR 0x0A, CHR 0x0A] @ ''[Content truncated...]'')"
proof -
  have h1: "BeautifulSoup sample_bs4 ''Hello'' = Inr [(''main'', ''Hello''), (''p'', [])]"
    by (simp add: sample_bs4_def)
  have h2: "find_content (select_one sample_bs4) [(''main'', ''Hello''), (''p'', [])] [(''main'', ''main'')]
              = Inr (Some ''Hello'')"
    by (simp add: sample_bs4_def)
  have h3: "decompose_unwanted sample_bs4 ''Hello'' = Inr ''Hello''"
    by (simp add: sample_bs4_def)
  have h4: "get_text sample_bs4 ''Hello'' = Inr ''Hello''"
    by (simp add: sample_bs4_def)
  have cw: "clean_whitespace ''Hello'' = ''Hello''"
    by (simp add: clean_whitespace_def py_split_def py_strip_def py_isspace_def)
  have h5: "0 \<le> max_content_length \<lparr>timeout = 30, max_content_length = 3\<rparr>"
    by simp
  have h6: "int (length (clean_whitespace ''Hello'')) > max_content_length \<lparr>timeout = 30, max_content_length = 3\<rparr>"
    by (simp add: cw)
  show ?thesis
    using truncation_appends_marker [OF h1 h2 h3 h4 h5 h6] by (simp add: cw)
qed



text \<open>
  C9. When the content element has no text (the library returns the empty string, or
  white space only) and \<open>max_content_length\<close> is zero or positive, the extraction returns
  the empty string.
\<close>

theorem empty_text_is_empty_result:
  assumes "BeautifulSoup lib html = Inr soup"
    and "find_content (select_one lib) soup selectors = Inr (Some el)"
    and "decompose_unwanted lib el = Inr cleaned"
    and "get_text lib cleaned = Inr raw"
    and "\<forall>c \<in> set raw. py_isspace c"
    and "0 \<le> max_content_length self"
  shows "extract_content self lib html selectors = Inr []"
  using assms(1-4,6) clean_whitespace_blank [OF assms(5)]
  by (simp add: extract_content_def extract_body_def truncate_text_def)

theorem empty_text_is_empty_result_witness:
  "extract_content \<lparr>timeout = 30, max_content_length = 0\<rparr> sample_bs4 ''Hello'' [(''para'', ''p'')] = Inr []"
proof -
  have h1: "BeautifulSoup sample_bs4 ''Hello'' = Inr [(''main'', ''Hello''), (''p'', [])]"
    by (simp add: sample_bs4_def)
  have h2: "find_content (select_one sample_bs4) [(''main'', ''Hello''), (''p'', [])] [(''para'', ''p'')]
              = Inr (Some [])"
    by (simp add: sample_bs4_def)
  have h3: "decompose_unwanted sample_bs4 [] = Inr []"
    by (simp add: sample_bs4_def)
  have h4: "get_text sample_bs4 [] = Inr []"
    by (simp add: sample_bs4_def)
  have h5: "\<forall>c \<in> set []. py_isspace c"
    by simp
  have h6: "0 \<le> max_content_length \<lparr>timeout = 30, max_content_length = 0\<rparr>"
    by simp
  show ?thesis
    using empty_text_is_empty_result [OF h1 h2 h3 h4 h5 h6] .
qed

text \<open>
  C10. \<open>_extract_content\<close> returns a text or raises \<open>ParsingError\<close>, never another
  exception: every exception of the body (a failure of the parser, of a selector, or the
  \<open>ParsingError\<close> the body raises itself when no rule matches) is raised again as a
  \<open>ParsingError\<close> whose message is \<open>Failed to parse HTML content:\<close> followed by the text of
  the original exception.
\<close>

theorem failures_are_parsing_errors:
  "((\<exists>text. extract_content self lib html selectors = Inr text) \<or>
    (\<exists>e. extract_body self lib html selectors = Inl e \<and>
         extract_content self lib html selectors
           = Inl (ParsingError (''Failed to parse HTML content: '' @ str_exc e)))) \<and>
   (\<forall>m. extract_content self lib html selectors \<noteq> Inl (LibraryException m)) \<and>
   (\<forall>m. BeautifulSoup lib html = Inl m \<longrightarrow>
      extract_content self lib html selectors
        = Inl (ParsingError (''Failed to parse HTML content: '' @ m))) \<and>
   (\<forall>soup m. BeautifulSoup lib html = Inr soup \<and> find_content (select_one lib) soup selectors = Inl m \<longrightarrow>
      extract_content self lib html selectors
        = Inl (ParsingError (''Failed to parse HTML content: '' @ m))) \<and>
   (\<forall>soup. BeautifulSoup lib html = Inr soup \<and> find_content (select_one lib) soup selectors = Inr None \<longrightarrow>
      extract_content self lib html selectors
        = Inl (ParsingError (''Failed to parse HTML content: ''
             @ ''Could not find content using selectors: '' @ repr_list (map fst selectors))))"
proof (intro conjI allI impI)
  show "(\<exists>text. extract_content self lib html selectors = Inr text) \<or>
    (\<exists>e. extract_body self lib html selectors = Inl e \<and>
         extract_content self lib html selectors
           = Inl (ParsingError (''Failed to parse HTML content: '' @ str_exc e)))"
    by (cases "extract_body self lib html selectors") (simp_all add: extract_content_def)
next
  fix m show "extract_content self lib html selectors \<noteq> Inl (LibraryException m)"
    by (cases "extract_body self lib html selectors") (simp_all add: extract_content_def)
next
  fix m assume "BeautifulSoup lib html = Inl m"
  then show "extract_content self lib html selectors
        = Inl (ParsingError (''Failed to parse HTML content: '' @ m))"
    by (simp add: extract_content_def extract_body_def)
next
  fix soup m
  assume "BeautifulSoup lib html = Inr soup \<and> find_content (select_one lib) soup selectors = Inl m"
  then show "extract_content self lib html selectors
        = Inl (ParsingError (''Failed to parse HTML content: '' @ m))"
    by (simp add: extract_content_def extract_body_def)
next
  fix soup
  assume "BeautifulSoup lib html = Inr soup \<and> find_content (select_one lib) soup selectors = Inr None"
  then show "extract_content self lib html selectors
        = Inl (ParsingError (''Failed to parse HTML content: ''
             @ ''Could not find content using selectors: '' @ repr_list (map fst selectors)))"
    by (simp add: extract_content_def extract_body_def)
qed

theorem failures_are_parsing_errors_witness:
  "extract_content \<lparr>timeout = 30, max_content_length = 1000\<rparr> sample_bs4 [] [(''main'', ''main'')]
     = Inl (ParsingError ''Failed to parse HTML content: Document is empty'') \<and>
   extract_content \<lparr>timeout = 30, max_content_length = 1000\<rparr> sample_bs4 ''Hello'' [(''broken'', ''!'')]
     = Inl (ParsingError ''Failed to parse HTML content: Invalid selector'')"
  using failures_are_parsing_errors [of "\<lparr>timeout = 30, max_content_length = 1000\<rparr>" sample_bs4 "[]" "[(''main'', ''main'')]"]
    failures_are_parsing_errors [of "\<lparr>timeout = 30, max_content_length = 1000\<rparr>" sample_bs4 "''Hello''" "[(''broken'', ''!'')]"]
  by (simp add: sample_bs4_def)

end
